theory Spec2Isabelle
  imports Main "HOL-Library.AList" "HOL-Library.Sublist"
begin

section \<open>Data model\<close>

text \<open>
  Seconds are JavaScript numbers holding integer counts; they are modelled as \<open>int\<close>
  (on integers of this size the arithmetic of the source is exact, and a number is
  printed in plain decimal digits).

  A languages object of the extension is a plain object. By its type
  \<open>Record<string, number>\<close> its values are numbers; once a sum has turned into a
  concatenation it holds a string. These are the primitives.
\<close>

datatype primitive = Num int | Str string

text \<open>
  What reading a property can give besides a primitive: a built-in function, or
  \<open>Object.prototype\<close> itself. \<open>undefined\<close> is \<open>None\<close>.
\<close>

datatype js_value = Prim primitive | NativeFunction string | ObjectPrototype

text \<open>\<open>String(n)\<close> for an integer \<open>n\<close>.\<close>

definition digit_char :: "nat \<Rightarrow> char" where
  "digit_char n = char_of (48 + n)"

function string_of_nat :: "nat \<Rightarrow> string" where
  "string_of_nat n =
     (if n < 10 then [digit_char n] else string_of_nat (n div 10) @ [digit_char (n mod 10)])"
  by pat_completeness auto
termination
  by (relation "measure id") auto

definition number_to_string :: "int \<Rightarrow> string" where
  "number_to_string n =
     (if n < 0 then CHR ''-'' # string_of_nat (nat (- n)) else string_of_nat (nat n))"

text \<open>The conversion to a string that \<open>+\<close> applies to an operand (as V8 prints functions).\<close>

fun to_string :: "js_value \<Rightarrow> string" where
  "to_string (Prim (Num n)) = number_to_string n"
| "to_string (Prim (Str s)) = s"
| "to_string (NativeFunction name) = ''function '' @ name @ ''() { [native code] }''"
| "to_string ObjectPrototype = ''[object Object]''"

text \<open>\<open>a + b\<close>: the sum of two numbers, the concatenation of the two strings otherwise.\<close>

fun js_add :: "js_value \<Rightarrow> js_value \<Rightarrow> primitive" where
  "js_add (Prim (Num a)) (Prim (Num b)) = Num (a + b)"
| "js_add a b = Str (to_string a @ to_string b)"

fun truthy :: "js_value \<Rightarrow> bool" where
  "truthy (Prim (Num n)) = (n \<noteq> 0)"
| "truthy (Prim (Str s)) = (s \<noteq> [])"
| "truthy (NativeFunction name) = True"
| "truthy ObjectPrototype = True"

text \<open>\<open>x || 0\<close>: \<open>x\<close> when it is truthy, 0 when it is undefined, 0 or the empty string.\<close>

definition or_zero :: "js_value option \<Rightarrow> js_value" where
  "or_zero x = (case x of None \<Rightarrow> Prim (Num 0)
                | Some v \<Rightarrow> (if truthy v then v else Prim (Num 0)))"

text \<open>
  A plain object is the list of its own entries in insertion order, each key once.
  The members that every plain object inherits from \<open>Object.prototype\<close>:
\<close>

type_synonym js_object = "(string \<times> primitive) list"

definition inherited :: "string \<Rightarrow> js_value option" where
  "inherited k =
     (if k = ''constructor'' then Some (NativeFunction ''Object'')
      else if k \<in> set [''hasOwnProperty'', ''isPrototypeOf'', ''propertyIsEnumerable'',
                       ''toLocaleString'', ''toString'', ''valueOf'',
                       ''__defineGetter__'', ''__defineSetter__'',
                       ''__lookupGetter__'', ''__lookupSetter__'']
           then Some (NativeFunction k)
      else if k = ''__proto__'' then Some ObjectPrototype
      else None)"

text \<open>\<open>obj[k]\<close>: the own property, else the inherited member, else undefined.\<close>

definition obj_get :: "js_object \<Rightarrow> string \<Rightarrow> js_value option" where
  "obj_get obj k = (case map_of obj k of Some p \<Rightarrow> Some (Prim p) | None \<Rightarrow> inherited k)"

text \<open>
  \<open>obj[k] = v\<close> for a primitive \<open>v\<close>: an own property keeps its place and takes the new
  value, a new key goes to the end; without an own property \<open>__proto__\<close> the assignment
  reaches the inherited setter, which ignores a primitive.
\<close>

definition obj_set :: "js_object \<Rightarrow> string \<Rightarrow> primitive \<Rightarrow> js_object" where
  "obj_set obj k v =
     (if k = ''__proto__'' \<and> map_of obj k = None then obj else AList.update k v obj)"

text \<open>\<open>IDayData\<close> (types.ts), with the fields that firebase.ts reads and writes.\<close>

record IDayData =
  date :: string
  totalSeconds :: int
  languages :: js_object

section \<open>Merge engine (firebase.ts, mergeDayData)\<close>

text \<open>
  \<open>{ ...existing.languages }\<close> copies the own entries; \<open>Object.entries\<close> lists the own
  entries of the incoming object.
\<close>

definition mergeDayData :: "IDayData \<Rightarrow> IDayData \<Rightarrow> IDayData" where
  "mergeDayData existing incoming =
     (let languages0 = languages existing;
          languages1 = fold (\<lambda>(lang, seconds) langs.
                               obj_set langs lang
                                 (js_add (or_zero (obj_get langs lang)) (Prim seconds)))
                         (languages incoming) languages0
      in \<lparr>date = date existing,
          totalSeconds = totalSeconds existing + totalSeconds incoming,
          languages = languages1\<rparr>)"

text \<open>The number an object holds for a language, a missing entry counting as 0.\<close>

definition number_of :: "js_object \<Rightarrow> string \<Rightarrow> int" where
  "number_of obj l = (case map_of obj l of Some (Num n) \<Rightarrow> n | _ \<Rightarrow> 0)"

text \<open>The loop of mergeDayData, as a function on the accumulated object.\<close>

abbreviation add_entries :: "js_object \<Rightarrow> js_object \<Rightarrow> js_object" where
  "add_entries entries acc \<equiv>
     fold (\<lambda>(lang, seconds) langs.
             obj_set langs lang (js_add (or_zero (obj_get langs lang)) (Prim seconds)))
       entries acc"

text \<open>
  A language is ordinary for an object when reading it finds no inherited member: its name
  is not that of a member of \<open>Object.prototype\<close>, or the object has it as an own
  property. An object of numbers holds no string.
\<close>

definition ordinary :: "js_object \<Rightarrow> string \<Rightarrow> bool" where
  "ordinary obj k = (inherited k = None \<or> map_of obj k \<noteq> None)"

definition numbers :: "js_object \<Rightarrow> bool" where
  "numbers obj = list_all (\<lambda>(k, v). case v of Num n \<Rightarrow> True | Str s \<Rightarrow> False) obj"

text \<open>
  The field-wise combination of two deltas, following the wording of the specification:
  totals are added, and every language of either delta gets the sum of its seconds in the
  two, a missing entry counting as 0. The keys are those of the first delta followed by
  the new keys of the second.
\<close>

definition combined_keys :: "js_object \<Rightarrow> js_object \<Rightarrow> string list" where
  "combined_keys l1 l2 = map fst l1 @ filter (\<lambda>k. k \<notin> set (map fst l1)) (map fst l2)"

definition combine_deltas :: "IDayData \<Rightarrow> IDayData \<Rightarrow> IDayData" where
  "combine_deltas D1 D2 =
     \<lparr>date = date D1,
      totalSeconds = totalSeconds D1 + totalSeconds D2,
      languages = map (\<lambda>k. (k, Num (number_of (languages D1) k + number_of (languages D2) k)))
                    (combined_keys (languages D1) (languages D2))\<rparr>"

section \<open>Merge of the HTTP API (Tracking model, mergeTrackingData)\<close>

text \<open>
  The API keeps the languages in a \<open>Map<string, number>\<close>, the list of its entries in
  insertion order; the incoming \<open>Record<string, number>\<close> is read through
  \<open>Object.entries\<close> only. \<open>Map.get\<close> finds the entries of the map and nothing else.
\<close>

type_synonym number_map = "(string \<times> int) list"

definition Map_get :: "number_map \<Rightarrow> string \<Rightarrow> int option" where
  "Map_get m k = map_of m k"

text \<open>\<open>Map.set\<close>: an existing key keeps its place and takes the new value, a new key goes to the end.\<close>

definition Map_set :: "number_map \<Rightarrow> string \<Rightarrow> int \<Rightarrow> number_map" where
  "Map_set m k v = AList.update k v m"

text \<open>\<open>x || 0\<close> on a number or undefined: undefined and the falsy number 0 give 0.\<close>

definition number_or_zero :: "int option \<Rightarrow> int" where
  "number_or_zero x = (case x of None \<Rightarrow> 0 | Some v \<Rightarrow> (if v = 0 then 0 else v))"

text \<open>The seconds a map holds for a language, a missing entry counting as 0.\<close>

definition seconds_of :: "number_map \<Rightarrow> string \<Rightarrow> int" where
  "seconds_of m l = (case map_of m l of None \<Rightarrow> 0 | Some v \<Rightarrow> v)"

text \<open>
  \<open>ITracking\<close>: the document of the Tracking model, with the fields the merge touches
  (\<open>createdAt\<close> and \<open>updatedAt\<close> are kept by the database layer).
\<close>

record ITracking =
  tr_userId :: string
  tr_date :: string
  tr_totalSeconds :: int
  tr_languages :: number_map

text \<open>
  The function ends by handing a document to the database layer: the updated existing
  document to \<open>save()\<close>, or a new one to \<open>create()\<close>.
\<close>

datatype persisted = Saved ITracking | Created ITracking

fun doc_of :: "persisted \<Rightarrow> ITracking" where
  "doc_of (Saved t) = t"
| "doc_of (Created t) = t"

text \<open>
  \<open>existing\<close> is what \<open>findOne({userId, date})\<close> returned (\<open>None\<close> for null).
  \<open>new Map(existing.languages)\<close> copies the entries; \<open>new Map(Object.entries(languages))\<close>
  has the entries of the object.
\<close>

definition mergeTrackingData ::
  "ITracking option \<Rightarrow> string \<Rightarrow> string \<Rightarrow> int \<Rightarrow> number_map \<Rightarrow> persisted" where
  "mergeTrackingData existing userId date' totalSeconds' languages' =
     (case existing of
        Some ex \<Rightarrow>
          (let updatedLanguages =
                 fold (\<lambda>(lang, seconds) m.
                         (let current = number_or_zero (Map_get m lang)
                          in Map_set m lang (max 0 (current + seconds))))
                   languages' (tr_languages ex)
           in Saved (ex\<lparr>tr_totalSeconds := tr_totalSeconds ex + totalSeconds',
                         tr_languages := updatedLanguages\<rparr>))
      | None \<Rightarrow>
          Created \<lparr>tr_userId = userId, tr_date = date', tr_totalSeconds = totalSeconds',
                   tr_languages = languages'\<rparr>)"

text \<open>The loop of mergeTrackingData, as a function on the accumulated map.\<close>

abbreviation clamp_entries :: "number_map \<Rightarrow> number_map \<Rightarrow> number_map" where
  "clamp_entries entries acc \<equiv>
     fold (\<lambda>(lang, seconds) m.
             (let current = number_or_zero (Map_get m lang)
              in Map_set m lang (max 0 (current + seconds)))) entries acc"

text \<open>Every count of a map is non-negative.\<close>

definition nonneg :: "number_map \<Rightarrow> bool" where
  "nonneg obj = list_all (\<lambda>(k, v). 0 \<le> v) obj"

section \<open>Sync coordinator and offline queue (firebase.ts, FirebaseManager)\<close>

text \<open>
  A thrown value is an \<open>Error\<close> with its message or anything else with its \<open>String()\<close>
  rendering; \<open>description\<close> is the text that looksLikeNetworkError inspects.
\<close>

datatype thrown = Error string | NonError string

fun description :: "thrown \<Rightarrow> string" where
  "description (Error message) = message"
| "description (NonError rendering) = rendering"

text \<open>\<open>toLowerCase\<close> on the ASCII letters; other characters are left as they are.\<close>

definition toLowerCase_char :: "char \<Rightarrow> char" where
  "toLowerCase_char c =
     (let n = (of_char c :: nat) in if 65 \<le> n \<and> n \<le> 90 then char_of (n + 32) else c)"

definition toLowerCase :: "string \<Rightarrow> string" where
  "toLowerCase s = map toLowerCase_char s"

text \<open>\<open>s.includes(sub)\<close>: \<open>sub\<close> occurs in \<open>s\<close> as a contiguous run.\<close>

definition str_includes :: "string \<Rightarrow> string \<Rightarrow> bool" where
  "str_includes s sub = sublist sub s"

definition looksLikeNetworkError :: "thrown \<Rightarrow> bool" where
  "looksLikeNetworkError error =
     (let msg = toLowerCase (description error)
      in str_includes msg ''network'' \<or>
         str_includes msg ''enotfound'' \<or>
         str_includes msg ''econnrefused'' \<or>
         str_includes msg ''etimedout'' \<or>
         str_includes msg ''timeout'' \<or>
         str_includes msg ''socket hang up'')"

text \<open>\<open>IQueuedUpdate\<close> (types.ts), with the fields that enqueue fills in.\<close>

record IQueuedUpdate =
  userId :: string
  qdate :: string
  data :: IDayData
  timestamp :: int

text \<open>
  A document of Firestore is addressed by \<open>users/{userId}/days/{date}\<close>, here the pair
  \<open>(userId, date)\<close>. A call of the remote store is recorded with its arguments.
\<close>

type_synonym doc_key = "string \<times> string"

datatype remote_call = DocGet doc_key | DocSet doc_key IDayData

text \<open>
  The state of a FirebaseManager (\<open>initialized\<close>, \<open>db\<close> as "the handle is not null",
  \<open>offlineQueue\<close>) together with its surroundings:
  \<^item> \<open>documents\<close>: the day documents of the remote store;
  \<^item> \<open>outcomes\<close>: what the next remote calls will do, in order: \<open>None\<close> for a call that
    goes through, \<open>Some e\<close> for a call that throws \<open>e\<close> and changes nothing; calls beyond
    the list go through;
  \<^item> \<open>trace\<close>: the remote calls attempted so far;
  \<^item> \<open>now\<close> and \<open>ticks\<close>: the \<open>n\<close>-th call of \<open>Date.now()\<close> returns \<open>now n\<close>.
  The awaits of the source run one after the other in a single flow. Building the
  document reference is taken not to throw: user ids and dates are valid document ids.
  The calls of \<open>console\<close> have no effect on the state.
\<close>

record manager =
  initialized :: bool
  db :: bool
  offlineQueue :: "IQueuedUpdate list"
  documents :: "(doc_key \<times> IDayData) list"
  outcomes :: "thrown option list"
  trace :: "remote_call list"
  now :: "nat \<Rightarrow> int"
  ticks :: nat

definition enqueue :: "string \<Rightarrow> IDayData \<Rightarrow> manager \<Rightarrow> manager" where
  "enqueue uid d s =
     s\<lparr>offlineQueue := offlineQueue s @
          [\<lparr>userId = uid, qdate = date d, data = d, timestamp = now s (ticks s)\<rparr>],
       ticks := Suc (ticks s)\<rparr>"

definition next_outcome :: "manager \<Rightarrow> thrown option \<times> manager" where
  "next_outcome s =
     (case outcomes s of [] \<Rightarrow> (None, s) | r # rs \<Rightarrow> (r, s\<lparr>outcomes := rs\<rparr>))"

text \<open>\<open>docRef.get()\<close>: throws, or returns the snapshot (\<open>None\<close> when \<open>exists\<close> is false).\<close>

definition docRef_get :: "doc_key \<Rightarrow> manager \<Rightarrow> (thrown + IDayData option) \<times> manager" where
  "docRef_get key s =
     (case next_outcome (s\<lparr>trace := trace s @ [DocGet key]\<rparr>) of
        (Some e, s1) \<Rightarrow> (Inl e, s1)
      | (None, s1) \<Rightarrow> (Inr (map_of (documents s1) key), s1))"

text \<open>\<open>docRef.set(value)\<close>: throws, or replaces the document.\<close>

definition docRef_set :: "doc_key \<Rightarrow> IDayData \<Rightarrow> manager \<Rightarrow> thrown option \<times> manager" where
  "docRef_set key v s =
     (case next_outcome (s\<lparr>trace := trace s @ [DocSet key v]\<rparr>) of
        (Some e, s1) \<Rightarrow> (Some e, s1)
      | (None, s1) \<Rightarrow> (None, s1\<lparr>documents := AList.update key v (documents s1)\<rparr>))"

text \<open>The catch block of writeDayData.\<close>

definition catch_write :: "thrown \<Rightarrow> string \<Rightarrow> IDayData \<Rightarrow> manager \<Rightarrow> bool \<times> manager" where
  "catch_write error uid d s =
     (False, if looksLikeNetworkError error then enqueue uid d s else s)"

definition writeDayData :: "string \<Rightarrow> IDayData \<Rightarrow> manager \<Rightarrow> bool \<times> manager" where
  "writeDayData uid d s =
     (if \<not> initialized s \<or> \<not> db s then (False, enqueue uid d s)
      else
        (let key = (uid, date d) in
         case docRef_get key s of
           (Inl error, s1) \<Rightarrow> catch_write error uid d s1
         | (Inr existing, s1) \<Rightarrow>
             (case existing of
                Some stored \<Rightarrow>
                  (let merged = mergeDayData stored d in
                   case docRef_set key merged s1 of
                     (Some error, s2) \<Rightarrow> catch_write error uid d s2
                   | (None, s2) \<Rightarrow> (True, s2))
              | None \<Rightarrow>
                  (case docRef_set key d s1 of
                     (Some error, s2) \<Rightarrow> catch_write error uid d s2
                   | (None, s2) \<Rightarrow> (True, s2)))))"


text \<open>
  The document that a write which goes through stores: the delta itself when no document
  exists (\<open>docRef.set(data)\<close>), the merge with the stored one otherwise
  (\<open>docRef.set(merged)\<close>).
\<close>

definition written :: "string \<Rightarrow> IDayData \<Rightarrow> manager \<Rightarrow> IDayData" where
  "written uid d s =
     (case map_of (documents s) (uid, date d) of None \<Rightarrow> d | Some stored \<Rightarrow> mergeDayData stored d)"


section \<open>What a drain has to do\<close>








section \<open>Example values\<close>

definition day1 :: IDayData where
  "day1 = \<lparr>date = ''2024-01-01'', totalSeconds = 120, languages = [(''go'', Num 120)]\<rparr>"

definition day2 :: IDayData where
  "day2 = \<lparr>date = ''2024-01-02'', totalSeconds = 30,
           languages = [(''go'', Num 10), (''rust'', Num 20)]\<rparr>"

text \<open>A delta for a language with the name of a member of \<open>Object.prototype\<close>.\<close>

definition day1_constructor :: IDayData where
  "day1_constructor =
     \<lparr>date = ''2024-01-01'', totalSeconds = 5, languages = [(''constructor'', Num 5)]\<rparr>"

text \<open>A manager that is connected to an empty store, with an empty queue.\<close>

definition connected :: manager where
  "connected = \<lparr>initialized = True, db = True, offlineQueue = [], documents = [],
                 outcomes = [], trace = [], now = int, ticks = 0\<rparr>"

section \<open>The merge engine on ordinary languages\<close>

lemma numbers_lookup: "numbers obj \<Longrightarrow> map_of obj k = Some p \<Longrightarrow> \<exists>n. p = Num n"
  by (auto simp: numbers_def list_all_iff split: primitive.splits dest!: map_of_SomeD)

lemma numbers_update: "numbers obj \<Longrightarrow> numbers (AList.update k (Num n) obj)"
  by (induction obj) (auto simp: numbers_def)

lemma number_of_update:
  "number_of (AList.update k (Num n) obj) l = (if l = k then n else number_of obj l)"
  by (simp add: number_of_def update_conv')

lemma number_step:
  assumes "ordinary acc k" and "numbers acc"
  shows "obj_set acc k (js_add (or_zero (obj_get acc k)) (Prim (Num v)))
           = AList.update k (Num (number_of acc k + v)) acc"
proof (cases "map_of acc k")
  case None
  with assms(1) have inh: "inherited k = None" by (simp add: ordinary_def)
  then have "k \<noteq> ''__proto__''" by (auto simp: inherited_def)
  with None inh show ?thesis
    by (simp add: obj_set_def obj_get_def or_zero_def number_of_def)
next
  case (Some p)
  with numbers_lookup [OF assms(2)] obtain n where "p = Num n" by blast
  with Some show ?thesis
    by (simp add: obj_set_def obj_get_def or_zero_def number_of_def)
qed

lemma add_entries_numbers:
  assumes "distinct (map fst entries)" and "numbers acc" and "numbers entries"
    and "\<forall>k \<in> fst ` set entries. ordinary acc k"
  shows "numbers (add_entries entries acc)
       \<and> number_of (add_entries entries acc) l = number_of acc l + number_of entries l"
  using assms
proof (induction entries arbitrary: acc)
  case Nil
  then show ?case by (simp add: number_of_def)
next
  case (Cons e entries)
  obtain k p where e: "e = (k, p)" by (cases e)
  with Cons.prems(3) obtain v where p: "p = Num v"
    by (cases p) (auto simp: numbers_def)
  from Cons.prems e have notin: "k \<notin> fst ` set entries" and d: "distinct (map fst entries)"
    and rest: "numbers entries" and ok: "ordinary acc k"
    by (auto simp: numbers_def)
  let ?acc = "AList.update k (Num (number_of acc k + v)) acc"
  have step: "add_entries (e # entries) acc = add_entries entries ?acc"
    using number_step [OF ok Cons.prems(2), of v] by (simp add: e p)
  have n: "numbers ?acc" by (rule numbers_update [OF Cons.prems(2)])
  have o: "\<forall>k' \<in> fst ` set entries. ordinary ?acc k'"
    using Cons.prems(4) by (auto simp: ordinary_def update_conv')
  have none: "number_of entries k = 0"
    using notin by (simp add: number_of_def map_of_eq_None_iff [THEN iffD2])
  have head: "number_of (e # entries) l = (if l = k then v else number_of entries l)"
    by (simp add: e p number_of_def)
  from Cons.IH [OF d n rest o]
  have IH: "numbers (add_entries entries ?acc)"
    "number_of (add_entries entries ?acc) l = number_of ?acc l + number_of entries l"
    by blast+
  show ?case
    unfolding step head using IH none by (simp add: number_of_update)
qed

text \<open>
  On objects of numbers, for languages that are ordinary for the existing record,
  mergeDayData adds: the totals, and for every language the seconds of the two sides, a
  missing entry counting as 0. The date is that of the existing record.
\<close>

lemma mergeDayData_adds_ordinary:
  assumes "distinct (map fst (languages D))"
    and "numbers (languages E)" and "numbers (languages D)"
    and "\<forall>k \<in> fst ` set (languages D). ordinary (languages E) k"
  shows "totalSeconds (mergeDayData E D) = totalSeconds E + totalSeconds D
       \<and> date (mergeDayData E D) = date E
       \<and> numbers (languages (mergeDayData E D))
       \<and> (\<forall>l. number_of (languages (mergeDayData E D)) l
               = number_of (languages E) l + number_of (languages D) l)"
  using add_entries_numbers [OF assms]
  by (simp add: mergeDayData_def)

section \<open>The merge engine on a language named like an inherited member\<close>

text \<open>
  C1. The specification asks that every language of the delta ends with the sum of its seconds on
  the two sides, a missing entry counting as 0. The code does so for the languages of the
  specification's scenario (\<open>go\<close>, \<open>rust\<close>). For a language named \<open>constructor\<close> that
  the existing record lacks, \<open>languages[lang]\<close> finds the inherited function \<open>Object\<close>,
  which is truthy, and the sum becomes the string \<open>function Object() { [native code] }5\<close>
  where the specification asks for the number 5.
\<close>

theorem mergeDayData_inherited_member:
  "mergeDayData
     \<lparr>date = ''2024-01-01'', totalSeconds = 120, languages = [(''go'', Num 120)]\<rparr>
     \<lparr>date = ''2024-01-01'', totalSeconds = 5, languages = [(''constructor'', Num 5)]\<rparr>
   = \<lparr>date = ''2024-01-01'', totalSeconds = 125,
      languages = [(''go'', Num 120),
                   (''constructor'', Str ''function Object() { [native code] }5'')]\<rparr>
   \<and> mergeDayData
       \<lparr>date = ''2024-01-01'', totalSeconds = 120, languages = [(''go'', Num 120)]\<rparr>
       \<lparr>date = ''2024-01-01'', totalSeconds = 30,
          languages = [(''go'', Num 10), (''rust'', Num 20)]\<rparr>
     = \<lparr>date = ''2024-01-01'', totalSeconds = 150,
        languages = [(''go'', Num 130), (''rust'', Num 20)]\<rparr>"
  by code_simp

text \<open>
  C2. The specification asks that merging \<open>D1\<close> and then \<open>D2\<close> gives what merging their
  combination gives. With an empty existing record and the language \<open>constructor\<close> in both
  deltas (1 and 2 seconds), merging in sequence ends with the string
  \<open>function Object() { [native code] }12\<close>, and merging the combination (3 seconds) with
  \<open>function Object() { [native code] }3\<close>: the two records differ.
\<close>

theorem mergeDayData_sequential_inherited_member:
  "mergeDayData
     (mergeDayData \<lparr>date = ''2024-01-01'', totalSeconds = 0, languages = []\<rparr>
        \<lparr>date = ''2024-01-01'', totalSeconds = 1, languages = [(''constructor'', Num 1)]\<rparr>)
     \<lparr>date = ''2024-01-01'', totalSeconds = 2, languages = [(''constructor'', Num 2)]\<rparr>
   = \<lparr>date = ''2024-01-01'', totalSeconds = 3,
      languages = [(''constructor'', Str ''function Object() { [native code] }12'')]\<rparr>
   \<and> combine_deltas
       \<lparr>date = ''2024-01-01'', totalSeconds = 1, languages = [(''constructor'', Num 1)]\<rparr>
       \<lparr>date = ''2024-01-01'', totalSeconds = 2, languages = [(''constructor'', Num 2)]\<rparr>
     = \<lparr>date = ''2024-01-01'', totalSeconds = 3, languages = [(''constructor'', Num 3)]\<rparr>
   \<and> mergeDayData \<lparr>date = ''2024-01-01'', totalSeconds = 0, languages = []\<rparr>
       (combine_deltas
          \<lparr>date = ''2024-01-01'', totalSeconds = 1, languages = [(''constructor'', Num 1)]\<rparr>
          \<lparr>date = ''2024-01-01'', totalSeconds = 2, languages = [(''constructor'', Num 2)]\<rparr>)
     = \<lparr>date = ''2024-01-01'', totalSeconds = 3,
        languages = [(''constructor'', Str ''function Object() { [native code] }3'')]\<rparr>"
  by code_simp

section \<open>Properties of the merge of the API\<close>

lemma number_or_zero_eq: "number_or_zero x = (case x of None \<Rightarrow> 0 | Some v \<Rightarrow> v)"
  by (simp add: number_or_zero_def split: option.splits)

lemma map_of_Map_set: "map_of (Map_set m k v) = (map_of m)(k \<mapsto> v)"
  by (simp add: Map_set_def update_conv')

lemma seconds_of_Map_set:
  "seconds_of (Map_set m k v) l = (if l = k then v else seconds_of m l)"
  by (simp add: seconds_of_def map_of_Map_set)

lemma nonneg_Map_set: "nonneg obj \<Longrightarrow> 0 \<le> v \<Longrightarrow> nonneg (Map_set obj k v)"
  by (induction obj) (auto simp: nonneg_def Map_set_def)

lemma nonneg_lookup: "nonneg obj \<Longrightarrow> 0 \<le> number_or_zero (Map_get obj k)"
  by (auto simp: nonneg_def Map_get_def number_or_zero_eq list_all_iff split: option.splits
      dest!: map_of_SomeD)

lemma clamp_entries_nonneg: "nonneg acc \<Longrightarrow> nonneg (clamp_entries entries acc)"
proof (induction entries arbitrary: acc)
  case Nil
  then show ?case by simp
next
  case (Cons e entries)
  obtain k v where e: "e = (k, v)" by (cases e)
  have "nonneg (Map_set acc k (max 0 (number_or_zero (Map_get acc k) + v)))"
    using Cons.prems by (intro nonneg_Map_set) simp_all
  from Cons.IH [OF this] show ?case by (simp add: e)
qed

lemma clamp_entries_lookup:
  "distinct (map fst entries) \<Longrightarrow>
   map_of (clamp_entries entries acc) l =
     (case map_of entries l of
        None \<Rightarrow> map_of acc l
      | Some s \<Rightarrow> Some (max 0 (seconds_of acc l + s)))"
proof (induction entries arbitrary: acc)
  case Nil
  then show ?case by simp
next
  case (Cons e entries)
  obtain k v where e: "e = (k, v)" by (cases e)
  from Cons.prems e have notin: "k \<notin> fst ` set entries" and d: "distinct (map fst entries)"
    by auto
  from notin have none: "map_of entries k = None"
    by (simp add: map_of_eq_None_iff)
  let ?acc = "Map_set acc k (max 0 (number_or_zero (Map_get acc k) + v))"
  have step: "clamp_entries (e # entries) acc = clamp_entries entries ?acc"
    by (simp add: e)
  show ?case
  proof (cases "l = k")
    case True
    have "map_of (clamp_entries entries ?acc) k = map_of ?acc k"
      using Cons.IH [OF d, of ?acc] none True by simp
    also have "\<dots> = Some (max 0 (seconds_of acc k + v))"
      by (simp add: map_of_Map_set Map_get_def number_or_zero_eq seconds_of_def)
    finally show ?thesis
      using True step by (simp add: e)
  next
    case False
    have "map_of (clamp_entries entries ?acc) l =
            (case map_of entries l of None \<Rightarrow> map_of ?acc l
             | Some s \<Rightarrow> Some (max 0 (seconds_of ?acc l + s)))"
      by (rule Cons.IH [OF d])
    also have "\<dots> = (case map_of entries l of None \<Rightarrow> map_of acc l
                        | Some s \<Rightarrow> Some (max 0 (seconds_of acc l + s)))"
      using False by (simp add: map_of_Map_set seconds_of_Map_set split: option.splits)
    finally show ?thesis
      using False step by (simp add: e)
  qed
qed


text \<open>
  C10. In mergeTrackingData on an existing document, every entry that is set is
  \<open>max 0 (current + incoming)\<close>; so when the existing counts are non-negative the merged
  map has no negative count, whatever the signs of the incoming seconds, while the total is
  the plain sum. The incoming object is well formed: each key once.
\<close>

theorem mergeTrackingData_clamps:
  assumes nonneg_ex: "nonneg (tr_languages ex)"
    and wf: "distinct (map fst langs)"
  shows "nonneg (tr_languages (doc_of (mergeTrackingData (Some ex) uid d secs langs)))
       \<and> (\<forall>l. map_of (tr_languages (doc_of (mergeTrackingData (Some ex) uid d secs langs))) l
               = (case map_of langs l of
                    None \<Rightarrow> map_of (tr_languages ex) l
                  | Some seconds \<Rightarrow> Some (max 0 (seconds_of (tr_languages ex) l + seconds))))
       \<and> tr_totalSeconds (doc_of (mergeTrackingData (Some ex) uid d secs langs))
           = tr_totalSeconds ex + secs"
  using clamp_entries_nonneg [OF nonneg_ex, of langs] clamp_entries_lookup [OF wf]
  by (simp add: mergeTrackingData_def)

theorem mergeTrackingData_clamps_witness:
  "nonneg [(''go'', 5)] \<and> distinct (map fst [(''go'', - 10 :: int), (''rust'', 3)])
   \<and> doc_of (mergeTrackingData
        (Some \<lparr>tr_userId = ''u1'', tr_date = ''2024-01-01'', tr_totalSeconds = 5,
                tr_languages = [(''go'', 5)]\<rparr>)
        ''u1'' ''2024-01-01'' (- 10) [(''go'', - 10), (''rust'', 3)])
     = \<lparr>tr_userId = ''u1'', tr_date = ''2024-01-01'', tr_totalSeconds = - 5,
        tr_languages = [(''go'', 0), (''rust'', 3)]\<rparr>
   \<and> nonneg (tr_languages (doc_of (mergeTrackingData
        (Some \<lparr>tr_userId = ''u1'', tr_date = ''2024-01-01'', tr_totalSeconds = 5,
                tr_languages = [(''go'', 5)]\<rparr>)
        ''u1'' ''2024-01-01'' (- 10) [(''go'', - 10), (''rust'', 3)])))"
proof -
  let ?ex = "\<lparr>tr_userId = ''u1'', tr_date = ''2024-01-01'', tr_totalSeconds = 5,
               tr_languages = [(''go'', 5)]\<rparr>"
  have n: "nonneg (tr_languages ?ex)" by (simp add: nonneg_def)
  have wf: "distinct (map fst [(''go'', - 10 :: int), (''rust'', 3)])" by simp
  have run: "doc_of (mergeTrackingData (Some ?ex) ''u1'' ''2024-01-01'' (- 10)
                       [(''go'', - 10), (''rust'', 3)])
      = \<lparr>tr_userId = ''u1'', tr_date = ''2024-01-01'', tr_totalSeconds = - 5,
         tr_languages = [(''go'', 0), (''rust'', 3)]\<rparr>"
    by (simp add: mergeTrackingData_def Map_set_def Map_get_def number_or_zero_def)
  from mergeTrackingData_clamps [OF n wf, of "''u1''" "''2024-01-01''" "- 10"] n wf run
  show ?thesis
    by simp
qed


text \<open>
  C9. The specification asks that the two merges agree on non-negative counts. With an empty
  existing record and 5 seconds of a language named \<open>constructor\<close>, the merge of the API
  reads its \<open>Map\<close> with \<open>get\<close>, finds nothing and stores the number 5; mergeDayData reads
  a plain object, finds the inherited function \<open>Object\<close> and stores the string
  \<open>function Object() { [native code] }5\<close>.
\<close>

theorem merges_differ_on_inherited_member:
  "tr_languages (doc_of (mergeTrackingData
       (Some \<lparr>tr_userId = ''u1'', tr_date = ''2024-01-01'', tr_totalSeconds = 0,
               tr_languages = []\<rparr>)
       ''u1'' ''2024-01-01'' 5 [(''constructor'', 5)]))
     = [(''constructor'', 5)]
   \<and> languages (mergeDayData
       \<lparr>date = ''2024-01-01'', totalSeconds = 0, languages = []\<rparr>
       \<lparr>date = ''2024-01-01'', totalSeconds = 5, languages = [(''constructor'', Num 5)]\<rparr>)
     = [(''constructor'', Str ''function Object() { [native code] }5'')]"
  by code_simp

section \<open>Properties of the sync coordinator\<close>

lemmas write_defs = writeDayData_def docRef_get_def docRef_set_def next_outcome_def
  catch_write_def

lemma writeDayData_not_ready:
  "\<not> initialized s \<or> \<not> db s \<Longrightarrow> writeDayData uid d s = (False, enqueue uid d s)"
  by (auto simp: writeDayData_def)

lemma writeDayData_get_throws:
  "initialized s \<Longrightarrow> db s \<Longrightarrow> outcomes s = Some e # rest \<Longrightarrow>
   writeDayData uid d s =
     catch_write e uid d (s\<lparr>trace := trace s @ [DocGet (uid, date d)], outcomes := rest\<rparr>)"
  by (simp add: writeDayData_def docRef_get_def next_outcome_def)

lemma writeDayData_set_throws:
  "initialized s \<Longrightarrow> db s \<Longrightarrow> outcomes s = None # Some e # rest \<Longrightarrow>
   writeDayData uid d s =
     catch_write e uid d
       (s\<lparr>trace := trace s @ [DocGet (uid, date d), DocSet (uid, date d) (written uid d s)],
          outcomes := rest\<rparr>)"
  by (simp add: writeDayData_def docRef_get_def docRef_set_def next_outcome_def written_def
      Let_def split: option.splits)


lemma writeDayData_success:
  assumes "writeDayData uid d s = (True, s')"
  shows "documents s' = AList.update (uid, date d) (written uid d s) (documents s)
       \<and> offlineQueue s' = offlineQueue s \<and> initialized s' \<and> db s'"
  using assms
  by (auto simp: write_defs written_def Let_def
      split: if_splits list.splits option.splits sum.splits prod.splits)

lemma writeDayData_queue:
  "offlineQueue (snd (writeDayData uid d s)) = offlineQueue s \<or>
   offlineQueue (snd (writeDayData uid d s)) =
     offlineQueue s @ [\<lparr>userId = uid, qdate = date d, data = d, timestamp = now s (ticks s)\<rparr>]"
  by (auto simp: write_defs enqueue_def Let_def
      split: if_splits list.splits option.splits sum.splits prod.splits)

lemma catch_write_transient:
  "looksLikeNetworkError e \<Longrightarrow> catch_write e uid d s = (False, enqueue uid d s)"
  by (simp add: catch_write_def)

lemma catch_write_permanent:
  "\<not> looksLikeNetworkError e \<Longrightarrow> catch_write e uid d s = (False, s)"
  by (simp add: catch_write_def)

lemma str_includes_toLowerCase:
  "str_includes s sub \<Longrightarrow> str_includes (toLowerCase s) (toLowerCase sub)"
  unfolding str_includes_def toLowerCase_def by (rule map_mono_sublist)

lemma etimedout_is_network:
  assumes "str_includes (description e) ''ETIMEDOUT''"
  shows "looksLikeNetworkError e"
proof -
  have "toLowerCase ''ETIMEDOUT'' = ''etimedout''" by code_simp
  with str_includes_toLowerCase [OF assms]
  have "str_includes (toLowerCase (description e)) ''etimedout''" by simp
  then show ?thesis by (simp add: looksLikeNetworkError_def)
qed

lemma network_words:
  "looksLikeNetworkError e \<longleftrightarrow>
     (\<exists>w \<in> set [''network'', ''enotfound'', ''econnrefused'', ''etimedout'', ''timeout'',
                 ''socket hang up'']. str_includes (toLowerCase (description e)) w)"
  by (simp add: looksLikeNetworkError_def Let_def)

text \<open>
  C4 (as amended). When \<open>docRef.get()\<close> or \<open>docRef.set()\<close> throws an error whose
  lowercased description contains one of \<open>network\<close>, \<open>enotfound\<close>, \<open>econnrefused\<close>,
  \<open>etimedout\<close>, \<open>timeout\<close>, \<open>socket hang up\<close> - in particular when the description
  contains \<open>ETIMEDOUT\<close> - writeDayData returns false with the original delta appended to
  the offline queue (the queued outcome): the queue is longer by exactly one and the
  documents of the store are unchanged.
\<close>

theorem writeDayData_transient:
  assumes ready: "initialized s \<and> db s"
    and raised: "outcomes s = Some e # rest \<or> outcomes s = None # Some e # rest"
    and transient:
      "(\<exists>w \<in> set [''network'', ''enotfound'', ''econnrefused'', ''etimedout'', ''timeout'',
                   ''socket hang up'']. str_includes (toLowerCase (description e)) w)
       \<or> str_includes (description e) ''ETIMEDOUT''"
  shows "fst (writeDayData uid d s) = False
       \<and> offlineQueue (snd (writeDayData uid d s)) =
           offlineQueue s @
             [\<lparr>userId = uid, qdate = date d, data = d, timestamp = now s (ticks s)\<rparr>]
       \<and> length (offlineQueue (snd (writeDayData uid d s))) = length (offlineQueue s) + 1
       \<and> documents (snd (writeDayData uid d s)) = documents s"
proof -
  from transient have net: "looksLikeNetworkError e"
    using etimedout_is_network network_words by blast
  from raised show ?thesis
  proof
    assume "outcomes s = Some e # rest"
    with ready net show ?thesis
      by (simp add: writeDayData_get_throws catch_write_transient enqueue_def)
  next
    assume "outcomes s = None # Some e # rest"
    with ready net show ?thesis
      by (simp add: writeDayData_set_throws catch_write_transient enqueue_def)
  qed
qed

text \<open>
  C6. When \<open>docRef.get()\<close> or \<open>docRef.set()\<close> throws an error that
  looksLikeNetworkError does not classify as a network error, writeDayData returns false
  and enqueues nothing (the failed outcome): the offline queue is unchanged, so no later
  drain resubmits the delta, and the documents of the store are unchanged.
\<close>

theorem writeDayData_permanent:
  assumes ready: "initialized s \<and> db s"
    and raised: "outcomes s = Some e # rest \<or> outcomes s = None # Some e # rest"
    and permanent: "\<not> looksLikeNetworkError e"
  shows "fst (writeDayData uid d s) = False
       \<and> offlineQueue (snd (writeDayData uid d s)) = offlineQueue s
       \<and> length (offlineQueue (snd (writeDayData uid d s))) = length (offlineQueue s)
       \<and> documents (snd (writeDayData uid d s)) = documents s"
proof -
  from raised show ?thesis
  proof
    assume "outcomes s = Some e # rest"
    with ready permanent show ?thesis
      by (simp add: writeDayData_get_throws catch_write_permanent)
  next
    assume "outcomes s = None # Some e # rest"
    with ready permanent show ?thesis
      by (simp add: writeDayData_set_throws catch_write_permanent)
  qed
qed

text \<open>
  C7. When the manager is not initialized (or has no database handle), writeDayData
  appends the delta to the offline queue and returns false (the queued outcome) without
  any remote call: the trace of remote calls, the pending outcomes and the documents are
  unchanged.
\<close>

theorem writeDayData_not_ready_queues:
  assumes "\<not> (initialized s \<and> db s)"
  shows "fst (writeDayData uid d s) = False
       \<and> offlineQueue (snd (writeDayData uid d s)) =
           offlineQueue s @
             [\<lparr>userId = uid, qdate = date d, data = d, timestamp = now s (ticks s)\<rparr>]
       \<and> trace (snd (writeDayData uid d s)) = trace s
       \<and> outcomes (snd (writeDayData uid d s)) = outcomes s
       \<and> documents (snd (writeDayData uid d s)) = documents s"
  using assms by (auto simp: writeDayData_not_ready enqueue_def)

text \<open>
  C3. When the store has no document for \<open>(userId, date)\<close> and writeDayData succeeds,
  the document stored under that key is the delta itself.
\<close>

theorem writeDayData_creates:
  assumes absent: "map_of (documents s) (uid, date d) = None"
    and success: "writeDayData uid d s = (True, s')"
  shows "map_of (documents s') (uid, date d) = Some d"
  using writeDayData_success [OF success] absent
  by (simp add: update_conv' written_def)

text \<open>
  C8. The specification asks that two successful submits of the same delta leave, for every
  language, what was there before plus twice the seconds of the delta. With the document
  \<open>{totalSeconds: 120, languages: {go: 120}}\<close> in the store and the delta
  \<open>{totalSeconds: 5, languages: {constructor: 5}}\<close>, both calls return true; the total is
  doubled (130), but the language \<open>constructor\<close> ends with the string
  \<open>function Object() { [native code] }55\<close> where the specification asks for the number 10.
\<close>

theorem writeDayData_twice_inherited_member:
  "fst (writeDayData ''u1'' day1_constructor
          (connected\<lparr>documents := [((''u1'', ''2024-01-01''), day1)]\<rparr>)) = True
   \<and> fst (writeDayData ''u1'' day1_constructor
          (snd (writeDayData ''u1'' day1_constructor
                  (connected\<lparr>documents := [((''u1'', ''2024-01-01''), day1)]\<rparr>)))) = True
   \<and> map_of (documents
         (snd (writeDayData ''u1'' day1_constructor
            (snd (writeDayData ''u1'' day1_constructor
                    (connected\<lparr>documents := [((''u1'', ''2024-01-01''), day1)]\<rparr>))))))
        (''u1'', ''2024-01-01'')
     = Some \<lparr>date = ''2024-01-01'', totalSeconds = 130,
             languages = [(''go'', Num 120),
                          (''constructor'', Str ''function Object() { [native code] }55'')]\<rparr>"
  by code_simp

section \<open>Properties of the drain\<close>








section \<open>The operations on example values\<close>

lemmas run_defs = writeDayData_def docRef_get_def docRef_set_def next_outcome_def
  catch_write_def enqueue_def connected_def day1_def day2_def Let_def

text \<open>
  C4 as the specification states it speaks of any "socket" wording. An error \<open>socket closed\<close>
  thrown by the read has such wording, and yet the delta is not queued: the classifier
  looks for \<open>socket hang up\<close>.
\<close>

theorem socket_wording_not_queued:
  "str_includes (toLowerCase (description (Error ''socket closed''))) ''socket''
   \<and> fst (writeDayData ''u1''
          \<lparr>date = ''2024-01-01'', totalSeconds = 120, languages = [(''go'', Num 120)]\<rparr>
          \<lparr>initialized = True, db = True, offlineQueue = [], documents = [],
            outcomes = [Some (Error ''socket closed'')], trace = [], now = int, ticks = 0\<rparr>)
       = False
   \<and> offlineQueue (snd (writeDayData ''u1''
          \<lparr>date = ''2024-01-01'', totalSeconds = 120, languages = [(''go'', Num 120)]\<rparr>
          \<lparr>initialized = True, db = True, offlineQueue = [], documents = [],
            outcomes = [Some (Error ''socket closed'')], trace = [], now = int, ticks = 0\<rparr>))
       = []"
proof -
  have w: "str_includes (toLowerCase (description (Error ''socket closed''))) ''socket''"
    by code_simp
  have n: "\<not> looksLikeNetworkError (Error ''socket closed'')"
    by code_simp
  show ?thesis
    using w n by (simp add: writeDayData_def docRef_get_def next_outcome_def catch_write_def)
qed

theorem writeDayData_transient_witness:
  "initialized (connected\<lparr>outcomes := [None, Some (Error ''connect ETIMEDOUT 10.0.0.1:443'')]\<rparr>)
   \<and> str_includes (description (Error ''connect ETIMEDOUT 10.0.0.1:443'')) ''ETIMEDOUT''
   \<and> fst (writeDayData ''u1'' day1
        (connected\<lparr>outcomes := [None, Some (Error ''connect ETIMEDOUT 10.0.0.1:443'')]\<rparr>))
       = False
   \<and> offlineQueue (snd (writeDayData ''u1'' day1
        (connected\<lparr>outcomes := [None, Some (Error ''connect ETIMEDOUT 10.0.0.1:443'')]\<rparr>)))
       = [\<lparr>userId = ''u1'', qdate = ''2024-01-01'', data = day1, timestamp = 0\<rparr>]
   \<and> documents (snd (writeDayData ''u1'' day1
        (connected\<lparr>outcomes := [None, Some (Error ''connect ETIMEDOUT 10.0.0.1:443'')]\<rparr>)))
       = []"
proof -
  let ?e = "Error ''connect ETIMEDOUT 10.0.0.1:443''"
  let ?s = "connected\<lparr>outcomes := [None, Some ?e]\<rparr>"
  have ready: "initialized ?s \<and> db ?s" by (simp add: connected_def)
  have raised: "outcomes ?s = Some ?e # [] \<or> outcomes ?s = None # Some ?e # []"
    by (simp add: connected_def)
  have inc: "str_includes (description ?e) ''ETIMEDOUT''" by code_simp
  then have transient:
    "(\<exists>w \<in> set [''network'', ''enotfound'', ''econnrefused'', ''etimedout'', ''timeout'',
                 ''socket hang up'']. str_includes (toLowerCase (description ?e)) w)
     \<or> str_includes (description ?e) ''ETIMEDOUT''" by (rule disjI2)
  from writeDayData_transient [OF ready raised transient, of "''u1''" day1] ready inc
  show ?thesis
    by (simp add: connected_def day1_def)
qed

theorem writeDayData_permanent_witness:
  "initialized (connected\<lparr>outcomes := [None, Some (Error ''PERMISSION_DENIED: Missing or insufficient permissions'')]\<rparr>)
   \<and> \<not> looksLikeNetworkError (Error ''PERMISSION_DENIED: Missing or insufficient permissions'')
   \<and> fst (writeDayData ''u1'' day1
        (connected\<lparr>outcomes := [None, Some (Error ''PERMISSION_DENIED: Missing or insufficient permissions'')]\<rparr>))
       = False
   \<and> offlineQueue (snd (writeDayData ''u1'' day1
        (connected\<lparr>outcomes := [None, Some (Error ''PERMISSION_DENIED: Missing or insufficient permissions'')]\<rparr>)))
       = []"
proof -
  let ?e = "Error ''PERMISSION_DENIED: Missing or insufficient permissions''"
  let ?s = "connected\<lparr>outcomes := [None, Some ?e]\<rparr>"
  have ready: "initialized ?s \<and> db ?s" by (simp add: connected_def)
  have raised: "outcomes ?s = Some ?e # [] \<or> outcomes ?s = None # Some ?e # []"
    by (simp add: connected_def)
  have permanent: "\<not> looksLikeNetworkError ?e" by code_simp
  from writeDayData_permanent [OF ready raised permanent, of "''u1''" day1] ready permanent
  show ?thesis
    by (simp add: connected_def)
qed

theorem writeDayData_not_ready_queues_witness:
  "\<not> (initialized (connected\<lparr>initialized := False, db := False\<rparr>)
        \<and> db (connected\<lparr>initialized := False, db := False\<rparr>))
   \<and> fst (writeDayData ''u1'' day1 (connected\<lparr>initialized := False, db := False\<rparr>)) = False
   \<and> offlineQueue (snd (writeDayData ''u1'' day1
        (connected\<lparr>initialized := False, db := False\<rparr>)))
       = [\<lparr>userId = ''u1'', qdate = ''2024-01-01'', data = day1, timestamp = 0\<rparr>]
   \<and> trace (snd (writeDayData ''u1'' day1 (connected\<lparr>initialized := False, db := False\<rparr>)))
       = []"
proof -
  let ?s = "connected\<lparr>initialized := False, db := False\<rparr>"
  have h: "\<not> (initialized ?s \<and> db ?s)" by simp
  from writeDayData_not_ready_queues [OF h, of "''u1''" day1] h
  show ?thesis
    by (simp add: connected_def day1_def)
qed

theorem writeDayData_creates_witness:
  "map_of (documents connected) (''u1'', date day1) = None
   \<and> writeDayData ''u1'' day1 connected =
       (True, connected\<lparr>documents := [((''u1'', ''2024-01-01''), day1)],
                       trace := [DocGet (''u1'', ''2024-01-01''),
                                 DocSet (''u1'', ''2024-01-01'') day1]\<rparr>)
   \<and> map_of (documents (connected\<lparr>documents := [((''u1'', ''2024-01-01''), day1)],
                       trace := [DocGet (''u1'', ''2024-01-01''),
                                 DocSet (''u1'', ''2024-01-01'') day1]\<rparr>))
        (''u1'', date day1) = Some day1"
proof -
  let ?s1 = "connected\<lparr>documents := [((''u1'', ''2024-01-01''), day1)],
                       trace := [DocGet (''u1'', ''2024-01-01''),
                                 DocSet (''u1'', ''2024-01-01'') day1]\<rparr>"
  have absent: "map_of (documents connected) (''u1'', date day1) = None"
    by (simp add: connected_def)
  have run: "writeDayData ''u1'' day1 connected = (True, ?s1)"
    by (simp add: run_defs)
  from writeDayData_creates [OF absent run] absent run show ?thesis
    by simp
qed


text \<open>The document of C8 after the two submits does not hold the doubled number.\<close>

theorem writeDayData_twice_inherited_member_witness:
  "map_of (documents
         (snd (writeDayData ''u1'' day1_constructor
            (snd (writeDayData ''u1'' day1_constructor
                    (connected\<lparr>documents := [((''u1'', ''2024-01-01''), day1)]\<rparr>))))))
        (''u1'', ''2024-01-01'')
     \<noteq> Some \<lparr>date = ''2024-01-01'', totalSeconds = 130,
             languages = [(''go'', Num 120), (''constructor'', Num 10)]\<rparr>"
  using writeDayData_twice_inherited_member by simp

end
